theory Spec2Isabelle
  imports Complex_Main
begin

section \<open>Numbers: numpy float64 with rounding abstracted\<close>

text \<open>
  Every number of \<^verbatim>\<open>portfolio_optimizer.py\<close> is a numpy float64. A finite float is
  modelled by the real it stands for (rounding, overflow and the sign of zero are not
  modelled); the three special values are kept, since the source never raises on a
  division by zero or on the square root of a negative number: numpy returns
  \<^verbatim>\<open>inf\<close>, \<^verbatim>\<open>-inf\<close> or \<^verbatim>\<open>nan\<close> there (with a warning) and goes on.
\<close>

datatype npfloat = Fin real | PInf | NInf | NaN

fun np_neg :: "npfloat \<Rightarrow> npfloat" where
  "np_neg (Fin a) = Fin (- a)"
| "np_neg PInf = NInf"
| "np_neg NInf = PInf"
| "np_neg NaN = NaN"

fun np_add :: "npfloat \<Rightarrow> npfloat \<Rightarrow> npfloat" where
  "np_add NaN _ = NaN"
| "np_add _ NaN = NaN"
| "np_add (Fin a) (Fin b) = Fin (a + b)"
| "np_add PInf NInf = NaN"
| "np_add NInf PInf = NaN"
| "np_add PInf _ = PInf"
| "np_add NInf _ = NInf"
| "np_add (Fin a) PInf = PInf"
| "np_add (Fin a) NInf = NInf"

definition np_sub :: "npfloat \<Rightarrow> npfloat \<Rightarrow> npfloat" where
  "np_sub a b = np_add a (np_neg b)"

text \<open>The sign of a product or quotient with an infinite operand.\<close>

definition signed_inf :: "bool \<Rightarrow> npfloat" where
  "signed_inf positive = (if positive then PInf else NInf)"

fun np_mul :: "npfloat \<Rightarrow> npfloat \<Rightarrow> npfloat" where
  "np_mul NaN _ = NaN"
| "np_mul _ NaN = NaN"
| "np_mul (Fin a) (Fin b) = Fin (a * b)"
| "np_mul (Fin a) PInf = (if a = 0 then NaN else signed_inf (0 < a))"
| "np_mul (Fin a) NInf = (if a = 0 then NaN else signed_inf (a < 0))"
| "np_mul PInf (Fin b) = (if b = 0 then NaN else signed_inf (0 < b))"
| "np_mul NInf (Fin b) = (if b = 0 then NaN else signed_inf (b < 0))"
| "np_mul PInf PInf = PInf"
| "np_mul NInf NInf = PInf"
| "np_mul PInf NInf = NInf"
| "np_mul NInf PInf = NInf"

fun np_div :: "npfloat \<Rightarrow> npfloat \<Rightarrow> npfloat" where
  "np_div NaN _ = NaN"
| "np_div _ NaN = NaN"
| "np_div (Fin a) (Fin b) =
     (if b \<noteq> 0 then Fin (a / b)
      else if a = 0 then NaN
      else signed_inf (0 < a))"
| "np_div (Fin a) PInf = Fin 0"
| "np_div (Fin a) NInf = Fin 0"
| "np_div PInf (Fin b) = signed_inf (0 \<le> b)"
| "np_div NInf (Fin b) = signed_inf (b < 0)"
| "np_div PInf PInf = NaN"
| "np_div PInf NInf = NaN"
| "np_div NInf PInf = NaN"
| "np_div NInf NInf = NaN"

fun np_sqrt :: "npfloat \<Rightarrow> npfloat" where
  "np_sqrt (Fin a) = (if a < 0 then NaN else Fin (sqrt a))"
| "np_sqrt PInf = PInf"
| "np_sqrt NInf = NaN"
| "np_sqrt NaN = NaN"

text \<open>IEEE comparison: every comparison with \<^verbatim>\<open>nan\<close> is false.\<close>

fun np_le :: "npfloat \<Rightarrow> npfloat \<Rightarrow> bool" where
  "np_le NaN _ = False"
| "np_le _ NaN = False"
| "np_le (Fin a) (Fin b) = (a \<le> b)"
| "np_le NInf _ = True"
| "np_le _ PInf = True"
| "np_le PInf _ = False"
| "np_le _ NInf = False"

text \<open>\<^verbatim>\<open>np.sum\<close> of a one-dimensional array; the sum of an empty array is 0.0.\<close>

definition np_sum :: "npfloat list \<Rightarrow> npfloat" where
  "np_sum xs = foldl np_add (Fin 0) xs"

text \<open>
  \<^verbatim>\<open>np.sum\<close> of a pandas Series is the Series' own \<^verbatim>\<open>sum\<close>, which skips missing
  values: an entry that is \<^verbatim>\<open>nan\<close> counts as 0.
\<close>

definition series_sum :: "npfloat list \<Rightarrow> npfloat" where
  "series_sum xs = np_sum (map (\<lambda>x. if x = NaN then Fin 0 else x) xs)"

text \<open>\<^verbatim>\<open>np.dot\<close> of two one-dimensional arrays of the same length.\<close>

definition np_dot :: "npfloat list \<Rightarrow> npfloat list \<Rightarrow> npfloat" where
  "np_dot xs ys = np_sum (map2 np_mul xs ys)"

text \<open>\<^verbatim>\<open>np.dot\<close> of a matrix (a list of rows) and a vector.\<close>

definition np_matvec :: "npfloat list list \<Rightarrow> npfloat list \<Rightarrow> npfloat list" where
  "np_matvec m v = map (\<lambda>row. np_dot row v) m"

section \<open>The optimizer object\<close>

text \<open>
  The exceptions the modelled code can raise. The source defines no exception class and
  has no \<^verbatim>\<open>raise\<close> statement; these are the ones Python, numpy and the data provider
  raise underneath it.
\<close>

datatype error = TypeError | ValueError | ZeroDivisionError | DownloadError

text \<open>
  \<^verbatim>\<open>class PortfolioOptimizer\<close>, with the attributes \<^verbatim>\<open>__init__\<close> sets. An attribute that
  is \<^verbatim>\<open>None\<close> is \<open>None\<close>. \<open>returns\<close> is the DataFrame of daily returns, held by columns:
  one list per asset, in the order of the symbols, all of the same length (the number of
  periods). \<open>mean_returns\<close> is a Series and \<open>cov_matrix\<close> a DataFrame, held as a list of rows.
\<close>

record optimizer =
  symbols :: "string list"
  start_date :: string
  end_date :: string
  risk_free_rate :: real
  returns :: "real list list option"
  mean_returns :: "npfloat list option"
  cov_matrix :: "npfloat list list option"

text \<open>\<^verbatim>\<open>__init__\<close>; the default of \<^verbatim>\<open>risk_free_rate\<close> is 0.02.\<close>

definition init :: "string list \<Rightarrow> string \<Rightarrow> string \<Rightarrow> real \<Rightarrow> optimizer" where
  "init syms start end_d rf =
     \<lparr> symbols = syms, start_date = start, end_date = end_d, risk_free_rate = rf,
       returns = None, mean_returns = None, cov_matrix = None \<rparr>"

subsection \<open>fetch_data\<close>

text \<open>
  pandas' \<^verbatim>\<open>Series.mean\<close> on a column without missing values: the arithmetic mean, and
  \<^verbatim>\<open>nan\<close> for a column with no entry.
\<close>

definition series_mean :: "real list \<Rightarrow> npfloat" where
  "series_mean xs = (if xs = [] then NaN else Fin (sum_list xs / real (length xs)))"

text \<open>
  One entry of pandas' \<^verbatim>\<open>DataFrame.cov\<close> (the sample covariance, normalised by the
  number of periods minus one) for two columns of the same length without missing
  values; \<^verbatim>\<open>nan\<close> when there are fewer than two periods.
\<close>

definition series_cov :: "real list \<Rightarrow> real list \<Rightarrow> npfloat" where
  "series_cov xs ys =
     (if length xs < 2 then NaN
      else let mx = sum_list xs / real (length xs);
               my = sum_list ys / real (length ys)
           in Fin (sum_list (map2 (\<lambda>x y. (x - mx) * (y - my)) xs ys) / real (length xs - 1)))"

text \<open>
  \<^verbatim>\<open>fetch_data\<close>. The download from the data provider and the two pandas calls that
  clean it (\<^verbatim>\<open>data.pct_change().dropna()\<close>) are outside the model: their outcome is the
  argument \<open>src\<close>, either the exception the download raised or the table of daily returns
  left after the incomplete rows were dropped. The two lines that annualise are modelled
  as written. An exception leaves the object as it was.
\<close>

definition fetch_data :: "error + real list list \<Rightarrow> optimizer \<Rightarrow> error + optimizer" where
  "fetch_data src self =
     (case src of
        Inl e \<Rightarrow> Inl e
      | Inr cols \<Rightarrow>
          Inr (self\<lparr> returns := Some cols,
                     mean_returns := Some (map (\<lambda>c. np_mul (series_mean c) (Fin 252)) cols),
                     cov_matrix :=
                       Some (map (\<lambda>ci. map (\<lambda>cj. np_mul (series_cov ci cj) (Fin 252)) cols) cols) \<rparr>))"

subsection \<open>portfolio_stats and the two objectives\<close>

text \<open>
  numpy refuses operands whose shapes do not agree (\<^verbatim>\<open>ValueError\<close>): the weights must
  have one entry per mean return, and the covariance matrix one row and one column per
  weight.
\<close>

definition shapes_agree :: "npfloat list \<Rightarrow> npfloat list list \<Rightarrow> npfloat list \<Rightarrow> bool" where
  "shapes_agree m c weights \<longleftrightarrow>
     length weights = length m \<and> length c = length m \<and> list_all (\<lambda>row. length row = length m) c"

text \<open>
  \<^verbatim>\<open>portfolio_stats\<close>: the triple (annual return, annual volatility, Sharpe ratio).
  The product of the mean returns (a Series) and the weights is a Series; the two dot
  products work on plain arrays. Before \<^verbatim>\<open>fetch_data\<close> has run the statistics are \<^verbatim>\<open>None\<close> and the first product raises
  \<^verbatim>\<open>TypeError\<close>.
\<close>

definition portfolio_stats :: "optimizer \<Rightarrow> npfloat list \<Rightarrow> error + npfloat \<times> npfloat \<times> npfloat" where
  "portfolio_stats self weights =
     (case (mean_returns self, cov_matrix self) of
        (Some m, Some c) \<Rightarrow>
          if shapes_agree m c weights then
            let portfolio_return = series_sum (map2 np_mul m weights);
                portfolio_std = np_sqrt (np_dot weights (np_matvec c weights));
                sharpe_ratio =
                  np_div (np_sub portfolio_return (Fin (risk_free_rate self))) portfolio_std
            in Inr (portfolio_return, portfolio_std, sharpe_ratio)
          else Inl ValueError
      | _ \<Rightarrow> Inl TypeError)"

definition negative_sharpe :: "optimizer \<Rightarrow> npfloat list \<Rightarrow> error + npfloat" where
  "negative_sharpe self weights =
     (case portfolio_stats self weights of
        Inl e \<Rightarrow> Inl e
      | Inr (ret, vol, sharpe) \<Rightarrow> Inr (np_neg sharpe))"

definition portfolio_volatility :: "optimizer \<Rightarrow> npfloat list \<Rightarrow> error + npfloat" where
  "portfolio_volatility self weights =
     (case portfolio_stats self weights of
        Inl e \<Rightarrow> Inl e
      | Inr (ret, vol, sharpe) \<Rightarrow> Inr vol)"

subsection \<open>optimize\<close>

text \<open>
  The \<^verbatim>\<open>OptimizeResult\<close> of \<^verbatim>\<open>scipy.optimize.minimize\<close>: the final iterate
  \<^verbatim>\<open>x\<close>, and what the solver reports about it.
\<close>

record optimize_result =
  res_x :: "npfloat list"
  res_success :: bool
  res_status :: int
  res_message :: string

text \<open>
  \<^verbatim>\<open>scipy.optimize.minimize(fun, x0, method='SLSQP', bounds=..., constraints=...)\<close> is
  library code, taken as a parameter: any function from the objective, the initial point,
  the bounds and the constraint function to a result or to an exception (one the objective
  raised, for instance).
\<close>

type_synonym solver =
  "(npfloat list \<Rightarrow> error + npfloat) \<Rightarrow> npfloat list \<Rightarrow> (npfloat \<times> npfloat) list
     \<Rightarrow> (npfloat list \<Rightarrow> npfloat) \<Rightarrow> error + optimize_result"

text \<open>The constraint function \<^verbatim>\<open>lambda x: np.sum(x) - 1\<close>.\<close>

definition eq_constraint :: "npfloat list \<Rightarrow> npfloat" where
  "eq_constraint x = np_sub (np_sum x) (Fin 1)"

text \<open>\<^verbatim>\<open>tuple((0, 1) for _ in range(num_assets))\<close>.\<close>

definition bounds :: "nat \<Rightarrow> (npfloat \<times> npfloat) list" where
  "bounds num_assets = replicate num_assets (Fin 0, Fin 1)"

text \<open>
  \<^verbatim>\<open>np.array([1/num_assets] * num_assets)\<close>: Python evaluates the quotient first, and
  raises \<^verbatim>\<open>ZeroDivisionError\<close> when there is no symbol.
\<close>

definition init_guess :: "nat \<Rightarrow> error + npfloat list" where
  "init_guess num_assets =
     (if num_assets = 0 then Inl ZeroDivisionError
      else Inr (replicate num_assets (Fin (1 / real num_assets))))"

text \<open>
  One entry of the dictionary \<^verbatim>\<open>optimize\<close> returns. \<open>weights\<close> is
  \<^verbatim>\<open>dict(zip(self.symbols, x))\<close>, held as the list of the pairs in the order they are
  inserted.
\<close>

record portfolio =
  weights :: "(string \<times> npfloat) list"
  p_return :: npfloat
  volatility :: npfloat
  sharpe :: npfloat

definition make_portfolio :: "string list \<Rightarrow> npfloat list \<Rightarrow> npfloat \<times> npfloat \<times> npfloat \<Rightarrow> portfolio" where
  "make_portfolio syms ws stats =
     \<lparr> weights = zip syms ws, p_return = fst stats, volatility = fst (snd stats),
       sharpe = snd (snd stats) \<rparr>"

record results =
  max_sharpe :: portfolio
  min_volatility :: portfolio
  equal_weight :: portfolio

text \<open>
  The body of \<^verbatim>\<open>optimize\<close> after the statistics are in place, in the order of the source:
  the initial point, the two calls of the solver, the equal weights, the three calls of
  \<^verbatim>\<open>portfolio_stats\<close>, the dictionary. Nothing reads \<^verbatim>\<open>success\<close>, \<^verbatim>\<open>status\<close> or
  \<^verbatim>\<open>message\<close> of a solver result.
\<close>

definition optimize_body :: "solver \<Rightarrow> optimizer \<Rightarrow> error + results" where
  "optimize_body minimize self =
     (let num_assets = length (symbols self) in
      case init_guess num_assets of
        Inl e \<Rightarrow> Inl e
      | Inr guess \<Rightarrow>
     (case minimize (negative_sharpe self) guess (bounds num_assets) eq_constraint of
        Inl e \<Rightarrow> Inl e
      | Inr opt_sharpe \<Rightarrow>
     (case minimize (portfolio_volatility self) guess (bounds num_assets) eq_constraint of
        Inl e \<Rightarrow> Inl e
      | Inr opt_var \<Rightarrow>
     (case init_guess num_assets of
        Inl e \<Rightarrow> Inl e
      | Inr equal_weights \<Rightarrow>
     (case portfolio_stats self (res_x opt_sharpe) of
        Inl e \<Rightarrow> Inl e
      | Inr sharpe_stats \<Rightarrow>
     (case portfolio_stats self (res_x opt_var) of
        Inl e \<Rightarrow> Inl e
      | Inr var_stats \<Rightarrow>
     (case portfolio_stats self equal_weights of
        Inl e \<Rightarrow> Inl e
      | Inr equal_stats \<Rightarrow>
          Inr \<lparr> max_sharpe = make_portfolio (symbols self) (res_x opt_sharpe) sharpe_stats,
                min_volatility = make_portfolio (symbols self) (res_x opt_var) var_stats,
                equal_weight = make_portfolio (symbols self) equal_weights equal_stats \<rparr>)))))))"

text \<open>
  The guard both public methods start with:
  \<^verbatim>\<open>if self.returns is None: self.fetch_data()\<close>.
\<close>

definition ensure_data :: "error + real list list \<Rightarrow> optimizer \<Rightarrow> error + optimizer" where
  "ensure_data src self = (if returns self = None then fetch_data src self else Inr self)"

text \<open>
  \<^verbatim>\<open>optimize\<close>: the outcome (the dictionary or the exception raised) and the object as the
  call leaves it.
\<close>

definition optimize :: "solver \<Rightarrow> error + real list list \<Rightarrow> optimizer \<Rightarrow> (error + results) \<times> optimizer" where
  "optimize minimize src self =
     (case ensure_data src self of
        Inl e \<Rightarrow> (Inl e, self)
      | Inr self' \<Rightarrow> (optimize_body minimize self', self'))"

subsection \<open>plot_efficient_frontier\<close>

text \<open>The three lists the sampling loop fills.\<close>

record frontier =
  returns_list :: "npfloat list"
  volatility_list :: "npfloat list"
  sharpe_list :: "npfloat list"

text \<open>
  \<^verbatim>\<open>np.random.random(n)\<close> is library code: \<open>rng i j\<close> is the \<open>j\<close>-th number it returns in
  iteration \<open>i\<close> of the loop. numpy documents the numbers as drawn from the half-open
  interval [0.0, 1.0).
\<close>

definition random_weights :: "(nat \<Rightarrow> nat \<Rightarrow> real) \<Rightarrow> nat \<Rightarrow> nat \<Rightarrow> npfloat list" where
  "random_weights rng i n = map (\<lambda>j. Fin (rng i j)) [0..<n]"

text \<open>\<^verbatim>\<open>weights /= np.sum(weights)\<close>.\<close>

definition normalize_weights :: "npfloat list \<Rightarrow> npfloat list" where
  "normalize_weights ws = map (\<lambda>w. np_div w (np_sum ws)) ws"

text \<open>
  The loop \<^verbatim>\<open>for _ in range(num_portfolios)\<close>, over the list of its iteration numbers;
  an exception of \<^verbatim>\<open>portfolio_stats\<close> ends it.
\<close>

fun sample_loop :: "optimizer \<Rightarrow> (nat \<Rightarrow> nat \<Rightarrow> real) \<Rightarrow> nat list \<Rightarrow> frontier \<Rightarrow> error + frontier" where
  "sample_loop self rng [] acc = Inr acc"
| "sample_loop self rng (i # rest) acc =
     (case portfolio_stats self (normalize_weights (random_weights rng i (length (symbols self)))) of
        Inl e \<Rightarrow> Inl e
      | Inr (ret, vol, shp) \<Rightarrow>
          sample_loop self rng rest
            \<lparr> returns_list = returns_list acc @ [ret],
              volatility_list = volatility_list acc @ [vol],
              sharpe_list = sharpe_list acc @ [shp] \<rparr>)"

text \<open>
  \<^verbatim>\<open>plot_efficient_frontier\<close> up to the plotting, which is outside the model: the sampled
  lists and the dictionary of \<^verbatim>\<open>optimize\<close> that the plot is drawn from, and the object
  as the call leaves it. \<^verbatim>\<open>range\<close> of a negative number is empty.
\<close>

definition plot_efficient_frontier ::
  "solver \<Rightarrow> error + real list list \<Rightarrow> (nat \<Rightarrow> nat \<Rightarrow> real) \<Rightarrow> int \<Rightarrow> optimizer
     \<Rightarrow> (error + frontier \<times> results) \<times> optimizer" where
  "plot_efficient_frontier minimize src rng num_portfolios self =
     (case ensure_data src self of
        Inl e \<Rightarrow> (Inl e, self)
      | Inr self' \<Rightarrow>
     (case sample_loop self' rng [0..<nat num_portfolios]
             \<lparr> returns_list = [], volatility_list = [], sharpe_list = [] \<rparr> of
        Inl e \<Rightarrow> (Inl e, self')
      | Inr fr \<Rightarrow>
     (case optimize minimize src self' of
        (Inl e, self'') \<Rightarrow> (Inl e, self'')
      | (Inr res, self'') \<Rightarrow> (Inr (fr, res), self''))))"

text \<open>
  The body of \<^verbatim>\<open>plot_efficient_frontier\<close> after the guard, on an object whose statistics
  are in place: the loop, then the body of \<^verbatim>\<open>optimize\<close>.
\<close>

definition frontier_outcome ::
  "solver \<Rightarrow> (nat \<Rightarrow> nat \<Rightarrow> real) \<Rightarrow> int \<Rightarrow> optimizer \<Rightarrow> error + frontier \<times> results" where
  "frontier_outcome minimize rng k self =
     (case sample_loop self rng [0..<nat k]
             \<lparr> returns_list = [], volatility_list = [], sharpe_list = [] \<rparr> of
        Inl e \<Rightarrow> Inl e
      | Inr fr \<Rightarrow>
          (case optimize_body minimize self of
             Inl e \<Rightarrow> Inl e
           | Inr res \<Rightarrow> Inr (fr, res)))"

section \<open>The formulas of the specification\<close>

text \<open>
  The quantities the specification names, written from its words over the reals, to be
  compared with what the code computes: the dot product of weights and mean returns,
  and the quadratic form of the weights in the covariance matrix.
\<close>

definition spec_return :: "real list \<Rightarrow> real list \<Rightarrow> real" where
  "spec_return w m = (\<Sum>i<length w. w ! i * m ! i)"

definition spec_variance :: "real list \<Rightarrow> real list list \<Rightarrow> real" where
  "spec_variance w c = (\<Sum>i<length w. \<Sum>j<length w. w ! i * c ! i ! j * w ! j)"

text \<open>
  The weight vector that puts all weight on asset \<open>k\<close> of \<open>n\<close>; \<open>one_hot n 0\<close> is
  [1, 0, ..., 0].
\<close>

definition one_hot :: "nat \<Rightarrow> nat \<Rightarrow> real list" where
  "one_hot n k = (replicate n 0)[k := 1]"

text \<open>
  The sample mean of a series of per-period returns, and the sample covariance of two
  series over the same periods (normalised by the number of periods minus one).
\<close>

definition spec_mean :: "real list \<Rightarrow> real" where
  "spec_mean xs = (\<Sum>t<length xs. xs ! t) / real (length xs)"

definition spec_cov :: "real list \<Rightarrow> real list \<Rightarrow> real" where
  "spec_cov xs ys =
     (\<Sum>t<length xs. (xs ! t - spec_mean xs) * (ys ! t - spec_mean ys)) / (real (length xs) - 1)"

text \<open>
  A solver that differs from \<open>minimize\<close> only in what it reports about its results:
  every result keeps its iterate and gets the given success flag, status and message.
\<close>

definition relabel :: "bool \<Rightarrow> int \<Rightarrow> string \<Rightarrow> solver \<Rightarrow> solver" where
  "relabel ok st msg minimize =
     (\<lambda>f x0 bs con.
        case minimize f x0 bs con of
          Inl e \<Rightarrow> Inl e
        | Inr r \<Rightarrow> Inr (r\<lparr> res_success := ok, res_status := st, res_message := msg \<rparr>))"

section \<open>A worked input\<close>

text \<open>
  Three days of returns of two assets: the first earns the same return every day (its
  variance is zero), the second moves. \<open>sample_optimizer\<close> is the object after
  \<^verbatim>\<open>fetch_data\<close> has read this table (lemma \<open>sample_optimizer_fetched\<close>).
\<close>

definition sample_table :: "real list list" where
  "sample_table = [[1/2000, 1/2000, 1/2000], [1/500, 3/1000, -1/500]]"

definition sample_optimizer :: optimizer where
  "sample_optimizer =
     \<lparr> symbols = [''CASH'', ''STOCK''], start_date = ''2020-01-01'', end_date = ''2024-01-01'',
       risk_free_rate = 1/50,
       returns = Some sample_table,
       mean_returns = Some [Fin (63/500), Fin (63/250)],
       cov_matrix = Some [[Fin 0, Fin 0], [Fin 0, Fin (441/250000)]] \<rparr>"

text \<open>
  A solver that fails at once: it hands back the initial point as its final iterate and
  reports that it did not converge.
\<close>

definition stalled_solver :: solver where
  "stalled_solver f x0 bs con =
     Inr \<lparr> res_x = x0, res_success = False, res_status = 9,
           res_message = ''Iteration limit reached'' \<rparr>"

text \<open>
  A solver that answers only when it is started from the point (1/2, 1/2) under the
  bounds [0, 1] on both weights, with a constraint function that is 0 at (1, 0) and 1 at
  (1, 1). It tells the two objectives apart by their value at (0, 1), and hands back
  (0, 1) for the volatility and (2, 3) for the other.
\<close>

definition probe_solver :: solver where
  "probe_solver f x0 bs con =
     (if x0 = [Fin (1/2), Fin (1/2)] \<and> bs = [(Fin 0, Fin 1), (Fin 0, Fin 1)]
         \<and> con [Fin 1, Fin 0] = Fin 0 \<and> con [Fin 1, Fin 1] = Fin 1
      then Inr \<lparr> res_x = (if f [Fin 0, Fin 1] = Inr (Fin (21/500))
                          then [Fin 0, Fin 1] else [Fin 2, Fin 3]),
                res_success = True, res_status = 0,
                res_message = ''Optimization terminated successfully'' \<rparr>
      else Inl ValueError)"

text \<open>A solver that raises whatever it is asked.\<close>

definition refusing_solver :: solver where
  "refusing_solver f x0 bs con = Inl ValueError"

text \<open>The entry of the dictionary of \<^verbatim>\<open>optimize\<close> for the weights (1/2, 1/2).\<close>

definition uniform_portfolio :: portfolio where
  "uniform_portfolio =
     \<lparr> weights = [(''CASH'', Fin (1/2)), (''STOCK'', Fin (1/2))],
       p_return = Fin (189/1000), volatility = Fin (21/1000), sharpe = Fin (169/21) \<rparr>"

definition uniform_results :: results where
  "uniform_results =
     \<lparr> max_sharpe = uniform_portfolio, min_volatility = uniform_portfolio,
       equal_weight = uniform_portfolio \<rparr>"

section \<open>Auxiliary lemmas\<close>

lemma sample_optimizer_fetched:
  "fetch_data (Inr sample_table) (init [''CASH'', ''STOCK''] ''2020-01-01'' ''2024-01-01'' (1/50))
     = Inr sample_optimizer"
  by (simp add: fetch_data_def init_def sample_optimizer_def sample_table_def series_mean_def
      series_cov_def)

lemma sqrt_441: "sqrt (441/250000) = 21/500"
  by (rule real_sqrt_unique) (simp_all add: power2_eq_square)

lemma sqrt_3969: "sqrt (3969/250000) = 63/500"
  by (rule real_sqrt_unique) (simp_all add: power2_eq_square)

subsection \<open>Arrays of finite numbers\<close>

lemma foldl_np_add_Fin: "foldl np_add (Fin a) (map Fin xs) = Fin (a + sum_list xs)"
  by (induction xs arbitrary: a) (simp_all add: add.assoc)

lemma series_sum_Fin: "series_sum (map Fin xs) = Fin (sum_list xs)"
proof -
  have "map (\<lambda>x. if x = NaN then Fin 0 else x) (map Fin xs) = map Fin xs"
    by simp
  then show ?thesis
    by (simp add: series_sum_def np_sum_def foldl_np_add_Fin del: map_map)
qed

lemma np_sum_Fin: "np_sum (map Fin xs) = Fin (sum_list xs)"
  by (simp add: np_sum_def foldl_np_add_Fin)

lemma map2_np_mul_Fin: "map2 np_mul (map Fin xs) (map Fin ys) = map Fin (map2 (*) xs ys)"
  by (auto simp add: zip_map_map)

lemma np_dot_Fin: "np_dot (map Fin xs) (map Fin ys) = Fin (sum_list (map2 (*) xs ys))"
  by (simp add: np_dot_def map2_np_mul_Fin np_sum_Fin del: map_map)

lemma np_matvec_Fin:
  "np_matvec (map (map Fin) c) (map Fin w) = map Fin (map (\<lambda>row. sum_list (map2 (*) row w)) c)"
  by (simp add: np_matvec_def np_dot_Fin)

lemma sum_list_map2_mult:
  "length xs = length ys \<Longrightarrow> sum_list (map2 (*) xs ys) = (\<Sum>i<length xs. xs ! i * ys ! i)"
  by (simp add: sum_list_sum_nth atLeast0LessThan)

lemma quad_form_sum:
  assumes "length c = length w" and "\<forall>row\<in>set c. length row = length w"
  shows "sum_list (map2 (*) w (map (\<lambda>row. sum_list (map2 (*) row w)) c)) = spec_variance w c"
proof -
  have row: "sum_list (map2 (*) (c ! i) w) = (\<Sum>j<length w. c ! i ! j * w ! j)"
    if "i < length w" for i
  proof -
    have "length (c ! i) = length w" using assms that by simp
    then show ?thesis using sum_list_map2_mult [of "c ! i" w] by simp
  qed
  have "sum_list (map2 (*) w (map (\<lambda>row. sum_list (map2 (*) row w)) c))
      = (\<Sum>i<length w. w ! i * map (\<lambda>row. sum_list (map2 (*) row w)) c ! i)"
    using assms(1) by (simp add: sum_list_map2_mult)
  also have "\<dots> = (\<Sum>i<length w. w ! i * (\<Sum>j<length w. c ! i ! j * w ! j))"
    using assms(1) by (intro sum.cong) (simp_all add: row)
  also have "\<dots> = spec_variance w c"
    by (simp add: spec_variance_def sum_distrib_left mult.assoc)
  finally show ?thesis .
qed

text \<open>What \<^verbatim>\<open>portfolio_stats\<close> computes on finite statistics and finite weights.\<close>

lemma portfolio_stats_Fin:
  assumes "mean_returns self = Some (map Fin m)"
    and "cov_matrix self = Some (map (map Fin) c)"
    and "length w = length m"
    and "length c = length m"
    and "\<forall>row\<in>set c. length row = length m"
  shows "portfolio_stats self (map Fin w) =
           Inr (Fin (spec_return w m),
                np_sqrt (Fin (spec_variance w c)),
                np_div (Fin (spec_return w m - risk_free_rate self))
                       (np_sqrt (Fin (spec_variance w c))))"
proof -
  have shape: "shapes_agree (map Fin m) (map (map Fin) c) (map Fin w)"
    using assms(3-5) by (simp add: shapes_agree_def list_all_iff)
  have ret: "series_sum (map2 np_mul (map Fin m) (map Fin w)) = Fin (spec_return w m)"
    using assms(3) sum_list_map2_mult [of m w]
    by (simp add: map2_np_mul_Fin series_sum_Fin spec_return_def mult.commute del: map_map)
  have var: "np_dot (map Fin w) (np_matvec (map (map Fin) c) (map Fin w)) = Fin (spec_variance w c)"
    using quad_form_sum [of c w] assms(3-5)
    by (simp add: np_matvec_Fin np_dot_Fin del: map_map)
  show ?thesis
    unfolding portfolio_stats_def assms(1,2)
    by (simp add: shape ret var np_sub_def del: map_map)
qed

subsection \<open>All weight on one asset\<close>

lemma length_one_hot: "length (one_hot n k) = n"
  by (simp add: one_hot_def)

lemma one_hot_nth: "i < n \<Longrightarrow> one_hot n k ! i = (if i = k then 1 else 0)"
  by (simp add: one_hot_def nth_list_update)

lemma spec_return_one_hot:
  assumes "k < n"
  shows "spec_return (one_hot n k) m = m ! k"
proof -
  have "spec_return (one_hot n k) m = (\<Sum>i<n. (if i = k then 1 else 0) * m ! i)"
    unfolding spec_return_def length_one_hot
    by (intro sum.cong) (simp_all add: one_hot_nth)
  also have "\<dots> = (\<Sum>i<n. if i = k then m ! i else 0)"
    by (intro sum.cong) simp_all
  also have "\<dots> = m ! k"
    using assms by (simp add: sum.delta)
  finally show ?thesis .
qed

lemma spec_variance_one_hot:
  assumes "k < n"
  shows "spec_variance (one_hot n k) c = c ! k ! k"
proof -
  have inner: "(\<Sum>j<n. (if i = k then 1 else 0) * c ! i ! j * (if j = k then 1 else 0))
             = (if i = k then c ! i ! k else 0)" for i
  proof -
    have "(\<Sum>j<n. (if i = k then 1 else 0) * c ! i ! j * (if j = k then 1 else 0))
        = (\<Sum>j<n. if j = k then (if i = k then c ! i ! j else 0) else 0)"
      by (intro sum.cong) simp_all
    also have "\<dots> = (if i = k then c ! i ! k else 0)"
      using assms by (simp add: sum.delta)
    finally show ?thesis .
  qed
  have "spec_variance (one_hot n k) c
      = (\<Sum>i<n. \<Sum>j<n. (if i = k then 1 else 0) * c ! i ! j * (if j = k then 1 else 0))"
    unfolding spec_variance_def length_one_hot
    by (intro sum.cong) (simp_all add: one_hot_nth)
  also have "\<dots> = (\<Sum>i<n. if i = k then c ! i ! k else 0)"
    by (simp only: inner)
  also have "\<dots> = c ! k ! k"
    using assms by (simp add: sum.delta)
  finally show ?thesis .
qed

subsection \<open>pandas' statistics on a table without missing values\<close>

lemma sum_list_nth_lessThan: "sum_list xs = (\<Sum>t<length xs. xs ! t)" for xs :: "real list"
  by (simp add: sum_list_sum_nth atLeast0LessThan)

lemma series_mean_spec: "xs \<noteq> [] \<Longrightarrow> series_mean xs = Fin (spec_mean xs)"
  by (simp add: series_mean_def spec_mean_def sum_list_nth_lessThan)

lemma series_cov_spec:
  assumes "length xs = length ys" and "2 \<le> length xs"
  shows "series_cov xs ys = Fin (spec_cov xs ys)"
proof -
  have "sum_list (map2 (\<lambda>x y. (x - spec_mean xs) * (y - spec_mean ys)) xs ys)
      = (\<Sum>t<length xs. (xs ! t - spec_mean xs) * (ys ! t - spec_mean ys))"
    using assms(1) by (simp add: sum_list_sum_nth atLeast0LessThan)
  moreover have "real (length xs - 1) = real (length xs) - 1"
    using assms(2) by (simp add: of_nat_diff)
  ultimately show ?thesis
    using assms(2)
    by (simp add: series_cov_def spec_cov_def spec_mean_def sum_list_nth_lessThan Let_def)
qed

subsection \<open>Comparison of floats\<close>

lemma np_le_neg: "np_le (np_neg a) (np_neg b) \<longleftrightarrow> np_le b a"
  by (cases a; cases b) simp_all

subsection \<open>The worked input evaluated\<close>

lemma sqrt_half: "sqrt (441/1000000) = 21/1000"
  by (rule real_sqrt_unique) (simp_all add: power2_eq_square)

lemma sample_symbols: "symbols sample_optimizer = [''CASH'', ''STOCK'']"
  by (simp add: sample_optimizer_def)

lemma sample_returns: "returns sample_optimizer = Some sample_table"
  by (simp add: sample_optimizer_def)

lemma sample_stats_stock:
  "portfolio_stats sample_optimizer [Fin 0, Fin 1] = Inr (Fin (63/250), Fin (21/500), Fin (116/21))"
  by (simp add: portfolio_stats_def sample_optimizer_def shapes_agree_def np_dot_def
      np_matvec_def np_sum_def series_sum_def np_sub_def sqrt_441)

lemma sample_stats_2_3:
  "portfolio_stats sample_optimizer [Fin 2, Fin 3] = Inr (Fin (126/125), Fin (63/500), Fin (494/63))"
  by (simp add: portfolio_stats_def sample_optimizer_def shapes_agree_def np_dot_def
      np_matvec_def np_sum_def series_sum_def np_sub_def sqrt_3969)

lemma sample_stats_equal:
  "portfolio_stats sample_optimizer [Fin (1/2), Fin (1/2)] =
     Inr (Fin (189/1000), Fin (21/1000), Fin (169/21))"
  by (simp add: portfolio_stats_def sample_optimizer_def shapes_agree_def np_dot_def
      np_matvec_def np_sum_def series_sum_def np_sub_def sqrt_half)

lemma ensure_data_sample: "ensure_data src sample_optimizer = Inr sample_optimizer"
  by (simp add: ensure_data_def sample_returns)

lemma optimize_stalled_sample:
  "optimize stalled_solver src sample_optimizer = (Inr uniform_results, sample_optimizer)"
  by (simp add: optimize_def ensure_data_def optimize_body_def sample_returns sample_symbols
      init_guess_def stalled_solver_def sample_stats_equal make_portfolio_def bounds_def
      uniform_results_def uniform_portfolio_def)

lemma eq_constraint_probe:
  "eq_constraint [Fin 1, Fin 0] = Fin 0" "eq_constraint [Fin 1, Fin 1] = Fin 1"
  by (simp_all add: eq_constraint_def np_sum_def np_sub_def)

lemma probe_negative_sharpe:
  "probe_solver (negative_sharpe sample_optimizer) [Fin (1/2), Fin (1/2)]
       [(Fin 0, Fin 1), (Fin 0, Fin 1)] eq_constraint =
     Inr \<lparr> res_x = [Fin 2, Fin 3], res_success = True, res_status = 0,
           res_message = ''Optimization terminated successfully'' \<rparr>"
  by (simp add: probe_solver_def eq_constraint_probe negative_sharpe_def sample_stats_stock)

lemma probe_portfolio_volatility:
  "probe_solver (portfolio_volatility sample_optimizer) [Fin (1/2), Fin (1/2)]
       [(Fin 0, Fin 1), (Fin 0, Fin 1)] eq_constraint =
     Inr \<lparr> res_x = [Fin 0, Fin 1], res_success = True, res_status = 0,
           res_message = ''Optimization terminated successfully'' \<rparr>"
  by (simp add: probe_solver_def eq_constraint_probe portfolio_volatility_def sample_stats_stock)

subsection \<open>Missing values spread\<close>

lemma np_add_NaN_right: "np_add a NaN = NaN"
  by (cases a) simp_all

lemma np_mul_NaN_right: "np_mul a NaN = NaN"
  by (cases a) simp_all

lemma np_div_NaN_right: "np_div a NaN = NaN"
  by (cases a) simp_all

lemma foldl_np_add_NaN: "foldl np_add NaN xs = NaN"
  by (induction xs) simp_all

lemma np_sum_replicate_NaN: "0 < n \<Longrightarrow> np_sum (replicate n NaN) = NaN"
  by (cases n) (simp_all add: np_sum_def np_add_NaN_right foldl_np_add_NaN)

lemma map2_np_mul_NaN_left: "length w = n \<Longrightarrow> map2 np_mul (replicate n NaN) w = replicate n NaN"
proof (induction w arbitrary: n)
  case Nil
  then show ?case by simp
next
  case (Cons x xs)
  then obtain k where "n = Suc k" by (cases n) auto
  with Cons show ?case by simp
qed

lemma map2_np_mul_NaN_right: "length w = n \<Longrightarrow> map2 np_mul w (replicate n NaN) = replicate n NaN"
proof (induction w arbitrary: n)
  case Nil
  then show ?case by simp
next
  case (Cons x xs)
  then obtain k where "n = Suc k" by (cases n) auto
  with Cons show ?case by (simp add: np_mul_NaN_right)
qed

lemma portfolio_stats_NaN_cov:
  assumes "mean_returns self = Some m"
    and "cov_matrix self = Some (replicate n (replicate n NaN))"
    and "length m = n" and "length w = n" and "0 < n"
  shows "\<exists>r. portfolio_stats self w = Inr (r, NaN, NaN)"
proof -
  have shape: "shapes_agree m (replicate n (replicate n NaN)) w"
    using assms(3,4) by (simp add: shapes_agree_def list_all_iff)
  have mv: "np_matvec (replicate n (replicate n NaN)) w = replicate n NaN"
    using assms(4,5) by (simp add: np_matvec_def np_dot_def map2_np_mul_NaN_left np_sum_replicate_NaN)
  have var: "np_dot w (np_matvec (replicate n (replicate n NaN)) w) = NaN"
    using assms(4,5) by (simp add: mv np_dot_def map2_np_mul_NaN_right np_sum_replicate_NaN)
  show ?thesis
    unfolding portfolio_stats_def assms(1,2)
    by (simp add: shape var np_div_NaN_right)
qed

subsection \<open>The body of optimize\<close>

lemma optimize_body_relabel:
  "optimize_body (relabel ok st msg minimize) self = optimize_body minimize self"
  by (simp add: optimize_body_def relabel_def Let_def split: sum.splits)

lemma optimize_body_Inr:
  assumes "optimize_body minimize self = Inr res"
  shows "\<exists>x0 o1 o2. init_guess (length (symbols self)) = Inr x0
      \<and> minimize (negative_sharpe self) x0 (bounds (length (symbols self))) eq_constraint = Inr o1
      \<and> minimize (portfolio_volatility self) x0 (bounds (length (symbols self))) eq_constraint = Inr o2
      \<and> weights (max_sharpe res) = zip (symbols self) (res_x o1)
      \<and> weights (min_volatility res) = zip (symbols self) (res_x o2)
      \<and> portfolio_stats self (res_x o1) =
           Inr (p_return (max_sharpe res), volatility (max_sharpe res), sharpe (max_sharpe res))
      \<and> portfolio_stats self (res_x o2) =
           Inr (p_return (min_volatility res), volatility (min_volatility res),
                sharpe (min_volatility res))"
  using assms
  by (auto simp add: optimize_body_def Let_def make_portfolio_def split: sum.splits)

lemma optimize_body_calls:
  assumes "n = length (symbols self)" and "0 < n"
    and "x0 = replicate n (Fin (1 / real n))" and "bs = replicate n (Fin 0, Fin 1)"
  shows "optimize_body minimize self =
     (case minimize (negative_sharpe self) x0 bs eq_constraint of
        Inl e \<Rightarrow> Inl e
      | Inr o1 \<Rightarrow>
     (case minimize (portfolio_volatility self) x0 bs eq_constraint of
        Inl e \<Rightarrow> Inl e
      | Inr o2 \<Rightarrow>
     (case portfolio_stats self (res_x o1) of
        Inl e \<Rightarrow> Inl e
      | Inr s1 \<Rightarrow>
     (case portfolio_stats self (res_x o2) of
        Inl e \<Rightarrow> Inl e
      | Inr s2 \<Rightarrow>
     (case portfolio_stats self x0 of
        Inl e \<Rightarrow> Inl e
      | Inr s3 \<Rightarrow>
          Inr \<lparr> max_sharpe = make_portfolio (symbols self) (res_x o1) s1,
                min_volatility = make_portfolio (symbols self) (res_x o2) s2,
                equal_weight = make_portfolio (symbols self) x0 s3 \<rparr>)))))"
proof -
  have g: "init_guess n = Inr x0"
    using assms(2,3) by (simp add: init_guess_def)
  have b: "bounds n = bs"
    using assms(4) by (simp add: bounds_def)
  show ?thesis
    unfolding optimize_body_def Let_def assms(1) [symmetric] g b sum.case ..
qed

lemma np_sum_replicate_Fin: "np_sum (replicate n (Fin a)) = Fin (real n * a)"
proof -
  have "np_sum (map Fin (replicate n a)) = Fin (sum_list (replicate n a))"
    by (rule np_sum_Fin)
  then show ?thesis by (simp add: sum_list_replicate)
qed

lemma eq_constraint_Fin: "eq_constraint (map Fin x) = Fin (sum_list x - 1)"
  by (simp add: eq_constraint_def np_sum_Fin np_sub_def)

subsection \<open>The guard on the cached statistics\<close>

lemma ensure_data_returns: "ensure_data src self = Inr self' \<Longrightarrow> returns self' \<noteq> None"
  by (auto simp: ensure_data_def fetch_data_def split: if_splits sum.splits)

lemma ensure_data_cached: "returns self \<noteq> None \<Longrightarrow> ensure_data src self = Inr self"
  by (auto simp: ensure_data_def)

lemma optimize_state: "ensure_data src self = Inr self' \<Longrightarrow> snd (optimize minimize src self) = self'"
  by (simp add: optimize_def)

lemma plot_state:
  "ensure_data src self = Inr self' \<Longrightarrow> snd (plot_efficient_frontier minimize src rng k self) = self'"
  by (frule ensure_data_returns)
     (auto simp: plot_efficient_frontier_def optimize_def ensure_data_cached split: sum.splits prod.splits)

lemma plot_outcome:
  assumes "ensure_data src self = Inr self'"
  shows "fst (plot_efficient_frontier minimize src rng k self) = frontier_outcome minimize rng k self'"
proof -
  have "ensure_data src self' = Inr self'"
    using assms by (intro ensure_data_cached ensure_data_returns)
  then show ?thesis
    by (simp add: plot_efficient_frontier_def frontier_outcome_def assms optimize_def
        split: sum.splits)
qed

lemma optimize_outcome:
  "ensure_data src self = Inr self' \<Longrightarrow> fst (optimize minimize src self) = optimize_body minimize self'"
  by (simp add: optimize_def)

subsection \<open>The sampling loop\<close>








lemma sample_loop_sample:
  "sample_loop sample_optimizer (\<lambda>i j. 1/2) [0..<nat 1]
     \<lparr> returns_list = [], volatility_list = [], sharpe_list = [] \<rparr> =
   Inr \<lparr> returns_list = [Fin (189/1000)], volatility_list = [Fin (21/1000)],
         sharpe_list = [Fin (169/21)] \<rparr>"
proof -
  have w: "normalize_weights (random_weights (\<lambda>i j. 1/2) 0 (length (symbols sample_optimizer)))
         = [Fin (1/2), Fin (1/2)]"
    by (simp add: sample_symbols random_weights_def normalize_weights_def np_sum_def)
  show ?thesis
    by (simp add: w sample_stats_equal)
qed

section \<open>The claims\<close>

text \<open>
  Claim C1. For every weight vector \<open>w\<close> with one entry per asset, whether or not its
  entries sum to 1, \<^verbatim>\<open>portfolio_stats\<close> on finite statistics returns the dot product of
  the weights and the mean returns, the square root of the quadratic form of the weights
  in the covariance matrix, and the quotient of the return less the risk-free rate by
  that volatility: nothing is validated and nothing is renormalised. The square root
  and the quotient are numpy's (\<^verbatim>\<open>nan\<close> or an infinity where the reals have no
  value); where the quadratic form is positive they are the real ones.
\<close>

theorem portfolio_stats_raw_dot_products:
  assumes "mean_returns self = Some (map Fin m)"
    and "cov_matrix self = Some (map (map Fin) c)"
    and "length w = length m"
    and "length c = length m"
    and "\<forall>row\<in>set c. length row = length m"
  shows "portfolio_stats self (map Fin w) =
           Inr (Fin (spec_return w m),
                np_sqrt (Fin (spec_variance w c)),
                np_div (Fin (spec_return w m - risk_free_rate self))
                       (np_sqrt (Fin (spec_variance w c))))
         \<and> (0 < spec_variance w c \<longrightarrow>
              portfolio_stats self (map Fin w) =
                Inr (Fin (spec_return w m),
                     Fin (sqrt (spec_variance w c)),
                     Fin ((spec_return w m - risk_free_rate self) / sqrt (spec_variance w c))))"
  using portfolio_stats_Fin [OF assms] by simp

text \<open>
  The weights 2 and 3 do not sum to 1; the return is 2 * 0.126 + 3 * 0.252 all the same.
\<close>

theorem portfolio_stats_raw_dot_products_witness:
  "portfolio_stats sample_optimizer [Fin 2, Fin 3] =
     Inr (Fin (126/125), Fin (63/500), Fin (494/63))"
proof -
  have r: "spec_return [2, 3] [63/500, 63/250] = 126/125"
    by (simp add: spec_return_def)
  have v: "spec_variance [2, 3] [[0, 0], [0, 441/250000]] = 3969/250000"
    by (simp add: spec_variance_def)
  show ?thesis
    using portfolio_stats_raw_dot_products
      [of sample_optimizer "[63/500, 63/250]" "[[0, 0], [0, 441/250000]]" "[2, 3]"]
    by (simp add: sample_optimizer_def r v sqrt_3969)
qed

text \<open>
  Claim C2, as the specification states it, fails: the source has no
  \<^verbatim>\<open>OptimizationFailedError\<close> and never reads what the solver reports. A solver that
  reports failure and hands back its starting point gets that point returned by
  \<^verbatim>\<open>optimize\<close> as the weights of the maximum-Sharpe portfolio, with no exception.
\<close>

theorem failed_solve_returned_as_optimal:
  "(\<exists>r. stalled_solver (negative_sharpe sample_optimizer) [Fin (1/2), Fin (1/2)] (bounds 2)
          eq_constraint = Inr r
        \<and> \<not> res_success r \<and> res_x r = [Fin (1/2), Fin (1/2)])
   \<and> optimize stalled_solver (Inl DownloadError) sample_optimizer =
       (Inr uniform_results, sample_optimizer)
   \<and> weights (max_sharpe uniform_results) = [(''CASH'', Fin (1/2)), (''STOCK'', Fin (1/2))]"
  by (simp add: optimize_stalled_sample stalled_solver_def uniform_results_def
      uniform_portfolio_def)

text \<open>
  Claim C2, amended. \<^verbatim>\<open>optimize\<close> never inspects the convergence of the solver:
  whenever it returns a dictionary, it returns the same dictionary if the success flag,
  status and message of the solver's results are overwritten with anything else, and the
  weights it reports as \<^verbatim>\<open>max_sharpe\<close> and \<^verbatim>\<open>min_volatility\<close> are the final iterates of
  the two solver runs, with the statistics \<^verbatim>\<open>portfolio_stats\<close> computes on them.
\<close>

theorem optimize_never_checks_convergence:
  assumes "optimize minimize src self = (Inr res, self')"
  shows "optimize (relabel ok st msg minimize) src self = (Inr res, self')
       \<and> (\<exists>x0 o1 o2. init_guess (length (symbols self')) = Inr x0
          \<and> minimize (negative_sharpe self') x0 (bounds (length (symbols self'))) eq_constraint = Inr o1
          \<and> minimize (portfolio_volatility self') x0 (bounds (length (symbols self'))) eq_constraint = Inr o2
          \<and> weights (max_sharpe res) = zip (symbols self') (res_x o1)
          \<and> weights (min_volatility res) = zip (symbols self') (res_x o2)
          \<and> portfolio_stats self' (res_x o1) =
               Inr (p_return (max_sharpe res), volatility (max_sharpe res), sharpe (max_sharpe res))
          \<and> portfolio_stats self' (res_x o2) =
               Inr (p_return (min_volatility res), volatility (min_volatility res),
                    sharpe (min_volatility res)))"
proof -
  from assms have e: "ensure_data src self = Inr self'" and b: "optimize_body minimize self' = Inr res"
    by (auto simp: optimize_def split: sum.splits)
  have "optimize (relabel ok st msg minimize) src self = (Inr res, self')"
    by (simp add: optimize_def e optimize_body_relabel b)
  then show ?thesis
    using optimize_body_Inr [OF b] by simp
qed

theorem optimize_never_checks_convergence_witness:
  "optimize (relabel True 0 ''Optimization terminated successfully'' stalled_solver)
     (Inl DownloadError) sample_optimizer = (Inr uniform_results, sample_optimizer)"
  using optimize_never_checks_convergence
    [OF optimize_stalled_sample, of True 0 "''Optimization terminated successfully''"
      "Inl DownloadError"]
  by simp

text \<open>
  Claim C3, as the specification states it, fails: the source has no
  \<^verbatim>\<open>DegenerateVolatilityError\<close> and no test of the volatility. With the weights [1, 0] on
  the asset of the worked input whose variance is 0, \<^verbatim>\<open>portfolio_stats\<close> raises nothing
  and returns the volatility 0 with an infinite Sharpe ratio.
\<close>

theorem zero_volatility_no_error:
  "portfolio_stats sample_optimizer [Fin 1, Fin 0] = Inr (Fin (63/500), Fin 0, PInf)"
  by (simp add: portfolio_stats_def sample_optimizer_def shapes_agree_def np_dot_def
      np_matvec_def np_sum_def series_sum_def np_sub_def signed_inf_def)

text \<open>
  Claim C3, amended. For every weight vector whose quadratic form in the (finite)
  covariance matrix is exactly zero, \<^verbatim>\<open>portfolio_stats\<close> raises nothing: it returns the
  return, the volatility 0, and as Sharpe ratio the float quotient by zero, which is
  \<^verbatim>\<open>inf\<close> when the return exceeds the risk-free rate, \<^verbatim>\<open>-inf\<close> when it is below, and
  \<^verbatim>\<open>nan\<close> when the two are equal. In particular, all weight on an asset whose variance
  is 0 returns that asset's mean return, the volatility 0, and \<^verbatim>\<open>inf\<close>, \<^verbatim>\<open>-inf\<close> or
  \<^verbatim>\<open>nan\<close> as that mean return exceeds, is below or equals the risk-free rate.
\<close>

theorem zero_volatility_sharpe:
  assumes "mean_returns self = Some (map Fin m)"
    and "cov_matrix self = Some (map (map Fin) c)"
    and "length c = length m"
    and "\<forall>row\<in>set c. length row = length m"
  shows "(length w = length m \<and> spec_variance w c = 0 \<longrightarrow>
            portfolio_stats self (map Fin w) =
              Inr (Fin (spec_return w m), Fin 0,
                   if spec_return w m = risk_free_rate self then NaN
                   else if risk_free_rate self < spec_return w m then PInf else NInf))
       \<and> (k < length m \<and> c ! k ! k = 0 \<longrightarrow>
            portfolio_stats self (map Fin (one_hot (length m) k)) =
              Inr (Fin (m ! k), Fin 0,
                   if m ! k = risk_free_rate self then NaN
                   else if risk_free_rate self < m ! k then PInf else NInf))"
proof -
  have general: "portfolio_stats self (map Fin v) =
              Inr (Fin (spec_return v m), Fin 0,
                   if spec_return v m = risk_free_rate self then NaN
                   else if risk_free_rate self < spec_return v m then PInf else NInf)"
    if "length v = length m" and "spec_variance v c = 0" for v
    using portfolio_stats_Fin [OF assms(1,2) that(1) assms(3,4)] that(2)
    by (simp add: signed_inf_def)
  have "portfolio_stats self (map Fin (one_hot (length m) k)) =
              Inr (Fin (m ! k), Fin 0,
                   if m ! k = risk_free_rate self then NaN
                   else if risk_free_rate self < m ! k then PInf else NInf)"
    if "k < length m" and "c ! k ! k = 0"
    using general [OF length_one_hot, of k] that
    by (simp add: spec_return_one_hot spec_variance_one_hot)
  with general show ?thesis by blast
qed

theorem zero_volatility_sharpe_witness:
  "portfolio_stats sample_optimizer [Fin (1/100), Fin 0] = Inr (Fin (63/50000), Fin 0, NInf)
   \<and> one_hot 2 0 = [1, 0]
   \<and> portfolio_stats (sample_optimizer\<lparr> risk_free_rate := 1 \<rparr>) [Fin 1, Fin 0] =
       Inr (Fin (63/500), Fin 0, NInf)
   \<and> portfolio_stats (sample_optimizer\<lparr> risk_free_rate := 63/500 \<rparr>) [Fin 1, Fin 0] =
       Inr (Fin (63/500), Fin 0, NaN)"
proof -
  have r: "spec_return [1/100, 0] [63/500, 63/250] = 63/50000"
    by (simp add: spec_return_def)
  have v: "spec_variance [1/100, 0] [[0, 0], [0, 441/250000]] = 0"
    by (simp add: spec_variance_def)
  have h: "one_hot 2 0 = [1, 0]"
    by (simp add: one_hot_def numeral_2_eq_2)
  have a: "portfolio_stats sample_optimizer [Fin (1/100), Fin 0] = Inr (Fin (63/50000), Fin 0, NInf)"
    using zero_volatility_sharpe
      [of sample_optimizer "[63/500, 63/250]" "[[0, 0], [0, 441/250000]]" "[1/100, 0]" 0]
    by (simp add: sample_optimizer_def r v)
  have b: "portfolio_stats (sample_optimizer\<lparr> risk_free_rate := 1 \<rparr>) (map Fin (one_hot 2 0)) =
       Inr (Fin (63/500), Fin 0, NInf)"
    using zero_volatility_sharpe
      [of "sample_optimizer\<lparr> risk_free_rate := 1 \<rparr>" "[63/500, 63/250]"
          "[[0, 0], [0, 441/250000]]" "[]" 0]
    by (simp add: sample_optimizer_def numeral_2_eq_2)
  have c: "portfolio_stats (sample_optimizer\<lparr> risk_free_rate := 63/500 \<rparr>) (map Fin (one_hot 2 0)) =
       Inr (Fin (63/500), Fin 0, NaN)"
    using zero_volatility_sharpe
      [of "sample_optimizer\<lparr> risk_free_rate := 63/500 \<rparr>" "[63/500, 63/250]"
          "[[0, 0], [0, 441/250000]]" "[]" 0]
    by (simp add: sample_optimizer_def numeral_2_eq_2)
  from a b c show ?thesis
    by (simp add: h)
qed

text \<open>
  Claim C4, as the specification states it, fails: the source has no
  \<^verbatim>\<open>InsufficientDataError\<close> and no test of the number of periods. On a table of two
  assets with a single period \<^verbatim>\<open>fetch_data\<close> raises nothing and stores a covariance
  matrix whose every entry is \<^verbatim>\<open>nan\<close>.
\<close>

theorem one_period_no_error:
  "fetch_data (Inr [[1/100], [1/50]]) (init [''A'', ''B''] ''2024-01-01'' ''2024-01-03'' (1/50)) =
     Inr \<lparr> symbols = [''A'', ''B''], start_date = ''2024-01-01'', end_date = ''2024-01-03'',
           risk_free_rate = 1/50,
           returns = Some [[1/100], [1/50]],
           mean_returns = Some [Fin (63/25), Fin (126/25)],
           cov_matrix = Some [[NaN, NaN], [NaN, NaN]] \<rparr>"
  by (simp add: fetch_data_def init_def series_mean_def series_cov_def)

text \<open>
  Claim C4, amended. For every return series that has fewer than two periods left,
  \<^verbatim>\<open>fetch_data\<close> raises nothing: it stores the series, the annualised means (252 times
  the single return of each asset, \<^verbatim>\<open>nan\<close> when no period is left) and a covariance
  matrix whose every entry is \<^verbatim>\<open>nan\<close>; \<^verbatim>\<open>portfolio_stats\<close> then returns, for any
  weights of the right length, a volatility and a Sharpe ratio that are \<^verbatim>\<open>nan\<close>.
\<close>

theorem short_series_gives_nan:
  assumes "\<forall>col\<in>set cols. length col < 2"
  shows "\<exists>self'. fetch_data (Inr cols) self = Inr self'
           \<and> returns self' = Some cols
           \<and> mean_returns self' =
               Some (map (\<lambda>col. if col = [] then NaN else Fin (hd col * 252)) cols)
           \<and> cov_matrix self' = Some (replicate (length cols) (replicate (length cols) NaN))
           \<and> (cols \<noteq> [] \<and> length w = length cols \<longrightarrow>
                (\<exists>r. portfolio_stats self' w = Inr (r, NaN, NaN)))"
proof -
  define self' where "self' = self\<lparr> returns := Some cols,
      mean_returns := Some (map (\<lambda>c. np_mul (series_mean c) (Fin 252)) cols),
      cov_matrix := Some (map (\<lambda>ci. map (\<lambda>cj. np_mul (series_cov ci cj) (Fin 252)) cols) cols) \<rparr>"
  have f: "fetch_data (Inr cols) self = Inr self'"
    by (simp add: fetch_data_def self'_def)
  have m: "map (\<lambda>c. np_mul (series_mean c) (Fin 252)) cols
         = map (\<lambda>col. if col = [] then NaN else Fin (hd col * 252)) cols"
  proof (intro map_cong refl)
    fix col assume "col \<in> set cols"
    then have "length col < 2" using assms by simp
    then have "col = [] \<or> (\<exists>x. col = [x])"
      by (cases col) (auto simp: less_Suc_eq numeral_2_eq_2)
    then show "np_mul (series_mean col) (Fin 252) = (if col = [] then NaN else Fin (hd col * 252))"
      by (auto simp: series_mean_def)
  qed
  have c: "map (\<lambda>ci. map (\<lambda>cj. np_mul (series_cov ci cj) (Fin 252)) cols) cols
         = replicate (length cols) (replicate (length cols) NaN)"
  proof -
    have "map (\<lambda>cj. np_mul (series_cov ci cj) (Fin 252)) cols = replicate (length cols) NaN"
      if "ci \<in> set cols" for ci
      using that assms by (simp add: series_cov_def map_replicate_const)
    then show ?thesis
      by (simp add: map_replicate_const cong: map_cong)
  qed
  have mr: "mean_returns self' = Some (map (\<lambda>col. if col = [] then NaN else Fin (hd col * 252)) cols)"
    by (simp add: self'_def m)
  have cm: "cov_matrix self' = Some (replicate (length cols) (replicate (length cols) NaN))"
    by (simp add: self'_def c)
  have ps: "\<exists>r. portfolio_stats self' w = Inr (r, NaN, NaN)"
    if "cols \<noteq> []" "length w = length cols"
    using portfolio_stats_NaN_cov [OF mr cm _ that(2)] that(1) by simp
  show ?thesis
    using f mr cm ps by (auto simp: self'_def)
qed

theorem short_series_gives_nan_witness:
  "\<exists>self'. fetch_data (Inr [[1/100], [1/50]])
              (init [''A'', ''B''] ''2024-01-01'' ''2024-01-03'' (1/50)) = Inr self'
     \<and> mean_returns self' = Some [Fin (63/25), Fin (126/25)]
     \<and> cov_matrix self' = Some [[NaN, NaN], [NaN, NaN]]
     \<and> (\<exists>r. portfolio_stats self' [Fin (1/2), Fin (1/2)] = Inr (r, NaN, NaN))"
  using short_series_gives_nan
    [where cols = "[[1/100], [1/50]]" and w = "[Fin (1/2), Fin (1/2)]"
       and self = "init [''A'', ''B''] ''2024-01-01'' ''2024-01-03'' (1/50)"]
  by (simp add: numeral_2_eq_2) blast




text \<open>
  Claim C6. \<^verbatim>\<open>fetch_data\<close> annualises by the constant 252: on a table of at least two
  periods the stored mean returns are the per-period sample means times 252 and the
  stored covariance matrix is the per-period sample covariances times 252. The factor
  depends on nothing: not on the dates of the object, not on the number of periods.
\<close>

theorem annualized_by_252:
  assumes "\<forall>col\<in>set cols. length col = T" and "2 \<le> T"
  shows "fetch_data (Inr cols) self =
           Inr (self\<lparr> returns := Some cols,
                      mean_returns := Some (map (\<lambda>col. Fin (spec_mean col * 252)) cols),
                      cov_matrix :=
                        Some (map (\<lambda>ci. map (\<lambda>cj. Fin (spec_cov ci cj * 252)) cols) cols) \<rparr>)"
proof -
  have m: "map (\<lambda>c. np_mul (series_mean c) (Fin 252)) cols
         = map (\<lambda>col. Fin (spec_mean col * 252)) cols"
  proof (intro map_cong refl)
    fix col assume "col \<in> set cols"
    then have "col \<noteq> []" using assms by fastforce
    then show "np_mul (series_mean col) (Fin 252) = Fin (spec_mean col * 252)"
      by (simp add: series_mean_spec)
  qed
  have c: "map (\<lambda>ci. map (\<lambda>cj. np_mul (series_cov ci cj) (Fin 252)) cols) cols
         = map (\<lambda>ci. map (\<lambda>cj. Fin (spec_cov ci cj * 252)) cols) cols"
  proof (intro map_cong refl)
    fix ci cj assume "ci \<in> set cols" "cj \<in> set cols"
    then have "length ci = length cj" "2 \<le> length ci" using assms by auto
    then show "np_mul (series_cov ci cj) (Fin 252) = Fin (spec_cov ci cj * 252)"
      by (simp add: series_cov_spec)
  qed
  show ?thesis
    by (simp add: fetch_data_def m c)
qed

theorem annualized_by_252_witness:
  "fetch_data (Inr sample_table) (init [''CASH'', ''STOCK''] ''2020-01-01'' ''2024-01-01'' (1/50))
     = Inr sample_optimizer"
proof -
  have T: "\<forall>col\<in>set sample_table. length col = 3"
    by (simp add: sample_table_def)
  have m: "map (\<lambda>col. Fin (spec_mean col * 252)) sample_table = [Fin (63/500), Fin (63/250)]"
    by (simp add: sample_table_def spec_mean_def numeral_3_eq_3)
  have c: "map (\<lambda>ci. map (\<lambda>cj. Fin (spec_cov ci cj * 252)) sample_table) sample_table
         = [[Fin 0, Fin 0], [Fin 0, Fin (441/250000)]]"
    by (simp add: sample_table_def spec_cov_def spec_mean_def numeral_3_eq_3)
  show ?thesis
    using annualized_by_252 [OF T, of "init [''CASH'', ''STOCK''] ''2020-01-01'' ''2024-01-01'' (1/50)"]
    by (simp add: m c init_def sample_optimizer_def)
qed

text \<open>
  Claim C7. On finite statistics, the weight vector that puts all weight on asset \<open>k\<close>
  gives a portfolio return equal to the mean return of that asset and a volatility
  equal to the square root of its diagonal entry of the covariance matrix (numpy's
  square root; the real one when the entry is not negative).
\<close>

theorem all_weight_on_one_asset:
  assumes "mean_returns self = Some (map Fin m)"
    and "cov_matrix self = Some (map (map Fin) c)"
    and "length c = length m"
    and "\<forall>row\<in>set c. length row = length m"
    and "k < length m"
  shows "\<exists>s. portfolio_stats self (map Fin (one_hot (length m) k)) =
               Inr (Fin (m ! k), np_sqrt (Fin (c ! k ! k)), s)
             \<and> (0 \<le> c ! k ! k \<longrightarrow> np_sqrt (Fin (c ! k ! k)) = Fin (sqrt (c ! k ! k)))"
  using portfolio_stats_Fin [OF assms(1,2) length_one_hot assms(3,4), of k] assms(5)
  by (simp add: spec_return_one_hot spec_variance_one_hot)

theorem all_weight_on_one_asset_witness:
  "one_hot 2 1 = [0, 1] \<and>
   (\<exists>s. portfolio_stats sample_optimizer [Fin 0, Fin 1] = Inr (Fin (63/250), Fin (21/500), s))"
proof -
  have h: "one_hot 2 (Suc 0) = [0, 1]"
    by (simp add: one_hot_def numeral_2_eq_2)
  have "\<exists>s. portfolio_stats sample_optimizer (map Fin (one_hot 2 1)) =
              Inr (Fin (63/250), Fin (21/500), s)"
    using all_weight_on_one_asset
      [of sample_optimizer "[63/500, 63/250]" "[[0, 0], [0, 441/250000]]" 1]
    by (simp add: sample_optimizer_def sqrt_441 numeral_2_eq_2)
  then show ?thesis
    by (simp add: h)
qed

text \<open>
  Claim C8. With at least one symbol, \<^verbatim>\<open>optimize\<close> runs the solver on each of the two
  objectives from the uniform point whose every weight is 1/n, under the bounds [0, 1]
  on every weight and the constraint function that is zero exactly where the weights
  sum to 1: an exception of either run is the outcome of \<^verbatim>\<open>optimize\<close>, and otherwise the
  weights it reports as \<^verbatim>\<open>max_sharpe\<close> and \<^verbatim>\<open>min_volatility\<close> are the final iterates of
  these two runs and the weights of \<^verbatim>\<open>equal_weight\<close> are the starting point itself. The
  solver is consulted nowhere else: any solver that agrees on these two runs gives the
  same outcome. The starting point is fixed by the number of symbols, and it satisfies
  the constraint.
\<close>

theorem optimize_starts_from_uniform_point:
  assumes "ensure_data src self = Inr self'"
    and "n = length (symbols self')"
    and "0 < n"
    and "x0 = replicate n (Fin (1 / real n))"
    and "bs = replicate n (Fin 0, Fin 1)"
  shows "(minimize (negative_sharpe self') x0 bs eq_constraint = Inl e \<longrightarrow>
            fst (optimize minimize src self) = Inl e)
       \<and> (minimize (negative_sharpe self') x0 bs eq_constraint = Inr o1
          \<and> minimize (portfolio_volatility self') x0 bs eq_constraint = Inl e \<longrightarrow>
            fst (optimize minimize src self) = Inl e)
       \<and> (minimize (negative_sharpe self') x0 bs eq_constraint = Inr o1
          \<and> minimize (portfolio_volatility self') x0 bs eq_constraint = Inr o2
          \<and> portfolio_stats self' (res_x o1) = Inr s1
          \<and> portfolio_stats self' (res_x o2) = Inr s2
          \<and> portfolio_stats self' x0 = Inr s3 \<longrightarrow>
            fst (optimize minimize src self) =
              Inr \<lparr> max_sharpe = make_portfolio (symbols self') (res_x o1) s1,
                    min_volatility = make_portfolio (symbols self') (res_x o2) s2,
                    equal_weight = make_portfolio (symbols self') x0 s3 \<rparr>)
       \<and> (minimize (negative_sharpe self') x0 bs eq_constraint
            = alt (negative_sharpe self') x0 bs eq_constraint
          \<and> minimize (portfolio_volatility self') x0 bs eq_constraint
            = alt (portfolio_volatility self') x0 bs eq_constraint \<longrightarrow>
            optimize minimize src self = optimize alt src self)
       \<and> init_guess n = Inr x0
       \<and> bounds n = bs
       \<and> eq_constraint x0 = Fin 0
       \<and> (eq_constraint (map Fin x) = Fin 0 \<longleftrightarrow> sum_list x = 1)"
proof -
  note body = optimize_body_calls [OF assms(2-5)]
  have o: "fst (optimize m src self) = optimize_body m self'"
    and o': "optimize m src self = (optimize_body m self', self')" for m
    by (simp_all add: optimize_def assms(1))
  have c1: "minimize (negative_sharpe self') x0 bs eq_constraint = Inl e \<longrightarrow>
            fst (optimize minimize src self) = Inl e"
    by (simp add: o body)
  have c2: "minimize (negative_sharpe self') x0 bs eq_constraint = Inr o1
          \<and> minimize (portfolio_volatility self') x0 bs eq_constraint = Inl e \<longrightarrow>
            fst (optimize minimize src self) = Inl e"
    by (simp add: o body)
  have c3: "minimize (negative_sharpe self') x0 bs eq_constraint = Inr o1
          \<and> minimize (portfolio_volatility self') x0 bs eq_constraint = Inr o2
          \<and> portfolio_stats self' (res_x o1) = Inr s1
          \<and> portfolio_stats self' (res_x o2) = Inr s2
          \<and> portfolio_stats self' x0 = Inr s3 \<longrightarrow>
            fst (optimize minimize src self) =
              Inr \<lparr> max_sharpe = make_portfolio (symbols self') (res_x o1) s1,
                    min_volatility = make_portfolio (symbols self') (res_x o2) s2,
                    equal_weight = make_portfolio (symbols self') x0 s3 \<rparr>"
    by (simp add: o body)
  have c4: "minimize (negative_sharpe self') x0 bs eq_constraint
            = alt (negative_sharpe self') x0 bs eq_constraint
          \<and> minimize (portfolio_volatility self') x0 bs eq_constraint
            = alt (portfolio_volatility self') x0 bs eq_constraint \<longrightarrow>
            optimize minimize src self = optimize alt src self"
  proof (intro impI, elim conjE)
    assume h1: "minimize (negative_sharpe self') x0 bs eq_constraint
              = alt (negative_sharpe self') x0 bs eq_constraint"
      and h2: "minimize (portfolio_volatility self') x0 bs eq_constraint
              = alt (portfolio_volatility self') x0 bs eq_constraint"
    have "optimize_body minimize self' = optimize_body alt self'"
      unfolding body [of minimize] body [of alt] h1 h2 ..
    then show "optimize minimize src self = optimize alt src self"
      by (simp add: o')
  qed
  have g: "init_guess n = Inr x0"
    using assms(3,4) by (simp add: init_guess_def)
  have b: "bounds n = bs"
    using assms(5) by (simp add: bounds_def)
  have f: "eq_constraint x0 = Fin 0"
    using assms(3,4) by (simp add: eq_constraint_def np_sum_replicate_Fin np_sub_def)
  show ?thesis
    using c1 c2 c3 c4 g b f by (simp add: eq_constraint_Fin)
qed

theorem optimize_starts_from_uniform_point_witness:
  "fst (optimize probe_solver (Inl DownloadError) sample_optimizer) =
     Inr \<lparr> max_sharpe =
             \<lparr> weights = [(''CASH'', Fin 2), (''STOCK'', Fin 3)],
               p_return = Fin (126/125), volatility = Fin (63/500), sharpe = Fin (494/63) \<rparr>,
           min_volatility =
             \<lparr> weights = [(''CASH'', Fin 0), (''STOCK'', Fin 1)],
               p_return = Fin (63/250), volatility = Fin (21/500), sharpe = Fin (116/21) \<rparr>,
           equal_weight = uniform_portfolio \<rparr>
   \<and> fst (optimize refusing_solver (Inl DownloadError) sample_optimizer) = Inl ValueError
   \<and> init_guess 2 = Inr [Fin (1/2), Fin (1/2)]
   \<and> bounds 2 = [(Fin 0, Fin 1), (Fin 0, Fin 1)]
   \<and> eq_constraint [Fin (1/2), Fin (1/2)] = Fin 0"
proof -
  have n: "2 = length (symbols sample_optimizer)"
    by (simp add: sample_symbols)
  have x0: "[Fin (1/2), Fin (1/2)] = replicate 2 (Fin (1 / real 2))"
    and bs: "[(Fin 0, Fin 1), (Fin 0, Fin 1)] = replicate 2 (Fin 0, Fin 1)"
    by (simp_all add: numeral_2_eq_2)
  note at_probe = optimize_starts_from_uniform_point
    [OF ensure_data_sample n _ x0 bs, where minimize = probe_solver
      and ?o1.0 = "\<lparr> res_x = [Fin 2, Fin 3], res_success = True, res_status = 0,
                 res_message = ''Optimization terminated successfully'' \<rparr>"
      and ?o2.0 = "\<lparr> res_x = [Fin 0, Fin 1], res_success = True, res_status = 0,
                 res_message = ''Optimization terminated successfully'' \<rparr>"
      and ?s1.0 = "(Fin (126/125), Fin (63/500), Fin (494/63))"
      and ?s2.0 = "(Fin (63/250), Fin (21/500), Fin (116/21))"
      and ?s3.0 = "(Fin (189/1000), Fin (21/1000), Fin (169/21))"
      and src = "Inl DownloadError" and alt = probe_solver and x = "[]"]
  note at_refusal = optimize_starts_from_uniform_point
    [OF ensure_data_sample n _ x0 bs, where minimize = refusing_solver and e = ValueError
      and src = "Inl DownloadError" and alt = refusing_solver and x = "[]"]
  have refusal: "refusing_solver f a b c = Inl ValueError" for f a b c
    by (simp add: refusing_solver_def)
  have a: "fst (optimize probe_solver (Inl DownloadError) sample_optimizer) =
     Inr \<lparr> max_sharpe = make_portfolio (symbols sample_optimizer) [Fin 2, Fin 3]
                            (Fin (126/125), Fin (63/500), Fin (494/63)),
           min_volatility = make_portfolio (symbols sample_optimizer) [Fin 0, Fin 1]
                            (Fin (63/250), Fin (21/500), Fin (116/21)),
           equal_weight = make_portfolio (symbols sample_optimizer) [Fin (1/2), Fin (1/2)]
                            (Fin (189/1000), Fin (21/1000), Fin (169/21)) \<rparr>"
    using at_probe
    by (simp add: probe_negative_sharpe probe_portfolio_volatility sample_stats_2_3
        sample_stats_stock sample_stats_equal)
  have b: "fst (optimize refusing_solver (Inl DownloadError) sample_optimizer) = Inl ValueError"
    using at_refusal by (simp add: refusal)
  have c: "init_guess 2 = Inr [Fin (1/2), Fin (1/2)]
         \<and> bounds 2 = [(Fin 0, Fin 1), (Fin 0, Fin 1)]
         \<and> eq_constraint [Fin (1/2), Fin (1/2)] = Fin 0"
    using at_refusal by simp
  from a b c show ?thesis
    by (simp add: make_portfolio_def sample_symbols uniform_portfolio_def)
qed

text \<open>
  Claim C9. The statistics are computed by the first call of \<^verbatim>\<open>optimize\<close> or
  \<^verbatim>\<open>plot_efficient_frontier\<close> that finds \<^verbatim>\<open>returns\<close> unset, and by no later one: once
  the guard has succeeded with the object \<open>self1\<close>, that call leaves the object as
  \<open>self1\<close> and computes its result from the statistics of \<open>self1\<close>, \<^verbatim>\<open>returns\<close> is set,
  and every later call of either method, with whatever solver, data source and random
  numbers, leaves the object equal to \<open>self1\<close>, reads the statistics of \<open>self1\<close> (its
  result is the body of the method run on \<open>self1\<close>) and does not depend on the data
  source it is given.
\<close>

theorem statistics_computed_once:
  assumes "ensure_data src self = Inr self1"
  shows "(returns self = None \<longrightarrow> fetch_data src self = Inr self1)
       \<and> (returns self \<noteq> None \<longrightarrow> self1 = self)
       \<and> snd (optimize minimize src self) = self1
       \<and> snd (plot_efficient_frontier minimize src rng k self) = self1
       \<and> returns self1 \<noteq> None
       \<and> snd (optimize minimize' src' self1) = self1
       \<and> snd (plot_efficient_frontier minimize' src' rng' k' self1) = self1
       \<and> fst (optimize minimize' src' self1) = optimize_body minimize' self1
       \<and> fst (optimize minimize src self) = optimize_body minimize self1
       \<and> fst (plot_efficient_frontier minimize src rng k self) = frontier_outcome minimize rng k self1
       \<and> fst (plot_efficient_frontier minimize' src' rng' k' self1) =
           frontier_outcome minimize' rng' k' self1
       \<and> optimize minimize' src' self1 = optimize minimize' src'' self1
       \<and> plot_efficient_frontier minimize' src' rng' k' self1 =
           plot_efficient_frontier minimize' src'' rng' k' self1"
proof -
  have r: "returns self1 \<noteq> None"
    using assms by (rule ensure_data_returns)
  then have c: "ensure_data s self1 = Inr self1" for s
    by (rule ensure_data_cached)
  have "returns self = None \<longrightarrow> fetch_data src self = Inr self1"
    and "returns self \<noteq> None \<longrightarrow> self1 = self"
    using assms by (auto simp: ensure_data_def split: if_splits)
  moreover have "optimize minimize' src' self1 = optimize minimize' src'' self1"
    by (simp add: optimize_def c)
  moreover have "plot_efficient_frontier minimize' src' rng' k' self1 =
           plot_efficient_frontier minimize' src'' rng' k' self1"
    by (rule prod_eqI) (simp_all add: plot_outcome [OF c] plot_state [OF c])
  ultimately show ?thesis
    using r optimize_state [OF assms] plot_state [OF assms] optimize_state [OF c] plot_state [OF c]
      optimize_outcome [OF assms] optimize_outcome [OF c] plot_outcome [OF assms] plot_outcome [OF c]
    by simp
qed

theorem statistics_computed_once_witness:
  "snd (optimize stalled_solver (Inr sample_table)
          (init [''CASH'', ''STOCK''] ''2020-01-01'' ''2024-01-01'' (1/50))) = sample_optimizer
   \<and> snd (optimize stalled_solver (Inr []) sample_optimizer) = sample_optimizer
   \<and> plot_efficient_frontier stalled_solver (Inr []) (\<lambda>i j. 1/2) 1 sample_optimizer =
       (Inr (\<lparr> returns_list = [Fin (189/1000)], volatility_list = [Fin (21/1000)],
               sharpe_list = [Fin (169/21)] \<rparr>, uniform_results),
        sample_optimizer)"
proof -
  have e: "ensure_data (Inr sample_table)
             (init [''CASH'', ''STOCK''] ''2020-01-01'' ''2024-01-01'' (1/50)) = Inr sample_optimizer"
    by (simp add: ensure_data_def init_def sample_optimizer_fetched [unfolded init_def])
  have b: "optimize_body stalled_solver sample_optimizer = Inr uniform_results"
    using optimize_stalled_sample [of "Inr []"] by (simp add: optimize_def ensure_data_sample)
  note once = statistics_computed_once
    [OF e, where minimize = stalled_solver and minimize' = stalled_solver and src' = "Inr []"
      and rng' = "\<lambda>i j. 1/2" and k' = 1 and rng = "\<lambda>i j. 1/2" and k = 1
      and src'' = "Inl DownloadError"]
  from once have p1:
    "snd (plot_efficient_frontier stalled_solver (Inr []) (\<lambda>i j. 1/2) 1 sample_optimizer)
          = sample_optimizer"
    by blast
  from once have p2:
    "fst (plot_efficient_frontier stalled_solver (Inr []) (\<lambda>i j. 1/2) 1 sample_optimizer)
          = frontier_outcome stalled_solver (\<lambda>i j. 1/2) 1 sample_optimizer"
    by blast
  have p3: "frontier_outcome stalled_solver (\<lambda>i j. 1/2) 1 sample_optimizer
          = Inr (\<lparr> returns_list = [Fin (189/1000)], volatility_list = [Fin (21/1000)],
                   sharpe_list = [Fin (169/21)] \<rparr>, uniform_results)"
    using sample_loop_sample by (simp add: frontier_outcome_def b)
  from p1 p2 p3
  have "plot_efficient_frontier stalled_solver (Inr []) (\<lambda>i j. 1/2) 1 sample_optimizer =
       (Inr (\<lparr> returns_list = [Fin (189/1000)], volatility_list = [Fin (21/1000)],
               sharpe_list = [Fin (169/21)] \<rparr>, uniform_results),
        sample_optimizer)"
    by (intro prod_eqI) simp_all
  moreover from once have
    "snd (optimize stalled_solver (Inr sample_table)
          (init [''CASH'', ''STOCK''] ''2020-01-01'' ''2024-01-01'' (1/50))) = sample_optimizer"
    "snd (optimize stalled_solver (Inr []) sample_optimizer) = sample_optimizer"
    by blast+
  ultimately show ?thesis
    by simp
qed

text \<open>
  Claim C10. Wherever \<^verbatim>\<open>portfolio_stats\<close> returns, \<^verbatim>\<open>negative_sharpe\<close> is the negation of
  its Sharpe ratio and \<^verbatim>\<open>portfolio_volatility\<close> is its volatility; and negation
  reverses the comparison of floats, so that one weight vector is at least as good as
  another for the objective \<^verbatim>\<open>negative_sharpe\<close> exactly when its Sharpe ratio is at
  least as large.
\<close>

theorem objectives_agree_with_portfolio_stats:
  assumes "portfolio_stats self w = Inr (r, v, s)"
    and "portfolio_stats self w' = Inr (r', v', s')"
  shows "negative_sharpe self w = Inr (np_neg s)
       \<and> portfolio_volatility self w = Inr v
       \<and> negative_sharpe self w' = Inr (np_neg s')
       \<and> portfolio_volatility self w' = Inr v'
       \<and> (np_le (np_neg s) (np_neg s') \<longleftrightarrow> np_le s' s)"
  using assms by (simp add: negative_sharpe_def portfolio_volatility_def np_le_neg)

theorem objectives_agree_with_portfolio_stats_witness:
  "negative_sharpe sample_optimizer [Fin 0, Fin 1] = Inr (Fin (- (116/21)))
   \<and> portfolio_volatility sample_optimizer [Fin 0, Fin 1] = Inr (Fin (21/500))
   \<and> negative_sharpe sample_optimizer [Fin 2, Fin 3] = Inr (Fin (- (494/63)))
   \<and> portfolio_volatility sample_optimizer [Fin 2, Fin 3] = Inr (Fin (63/500))
   \<and> \<not> np_le (Fin (- (116/21))) (Fin (- (494/63)))
   \<and> \<not> np_le (Fin (494/63)) (Fin (116/21))"
  using objectives_agree_with_portfolio_stats [OF sample_stats_stock sample_stats_2_3]
  by simp

end
